theory Spec2Isabelle
  imports Complex_Main "HOL-Library.List_Lexorder" "HOL-Library.Char_ord"
begin

section \<open>Numbers\<close>

text \<open>
  The script computes with JavaScript numbers, which are doubles. The model takes them as
  exact reals: every finite double is a rational, comparisons are exact in both, and a sum,
  a difference or a product is exact in the model where the script rounds it to the nearest
  double. The two agree wherever the double the script computes is the number the model
  computes, as for sums, differences and products of whole numbers of seconds and for the
  products of the chunk lengths 30 (the only one the script passes) and 60 by 0.8 and 0.5;
  for other values (a target of 43, a chunk length of 0.1) they can differ in the last bit of
  a product or a sum. The closed evaluations below use values of the first kind. NaN and the
  infinities are outside the model.
\<close>

type_synonym seconds = real

section \<open>Split planning: \<^verbatim>\<open>calculateOptimalSplitPoints\<close>\<close>

text \<open>
  The inner loop \<^verbatim>\<open>for (let j = i; j < silencePoints.length; j++)\<close>. Its first argument is
  the part of \<^verbatim>\<open>silencePoints\<close> from index \<open>j\<close> on, its last the current value of
  \<^verbatim>\<open>bestPoint\<close>; the result is \<^verbatim>\<open>bestPoint\<close> when the loop is left.
\<close>

fun findBestPoint :: "seconds list \<Rightarrow> seconds \<Rightarrow> seconds \<Rightarrow> seconds \<Rightarrow> seconds" where
  "findBestPoint [] currentTime maxChunkDuration bestPoint = bestPoint"
| "findBestPoint (candidatePoint # later) currentTime maxChunkDuration bestPoint =
     (let chunkDuration = candidatePoint - currentTime in
      if chunkDuration \<le> maxChunkDuration \<and> chunkDuration \<ge> maxChunkDuration * 0.5
      then candidatePoint
      else if chunkDuration > maxChunkDuration then bestPoint
      else findBestPoint later currentTime maxChunkDuration bestPoint)"

text \<open>
  The outer loop \<^verbatim>\<open>for (let i = 0; i < silencePoints.length; i++)\<close>. Its first argument is
  the part of \<^verbatim>\<open>silencePoints\<close> from index \<open>i\<close> on; the state of the loop is
  \<^verbatim>\<open>currentTime\<close> and the array \<^verbatim>\<open>splitPoints\<close> built so far. Whatever the inner loop
  chose, the next round is index \<open>i + 1\<close>.
\<close>

fun splitLoop :: "seconds list \<Rightarrow> seconds \<Rightarrow> seconds \<Rightarrow> seconds list \<Rightarrow> seconds list" where
  "splitLoop [] maxChunkDuration currentTime splitPoints = splitPoints"
| "splitLoop (silencePoint # later) maxChunkDuration currentTime splitPoints =
     (if silencePoint - currentTime \<ge> maxChunkDuration * 0.8
      then (let bestPoint =
                  findBestPoint (silencePoint # later) currentTime maxChunkDuration silencePoint
            in splitLoop later maxChunkDuration bestPoint (splitPoints @ [bestPoint]))
      else splitLoop later maxChunkDuration currentTime splitPoints)"

definition calculateOptimalSplitPoints ::
    "seconds list \<Rightarrow> seconds \<Rightarrow> seconds \<Rightarrow> seconds list" where
  "calculateOptimalSplitPoints silencePoints totalDuration maxChunkDuration =
     splitLoop silencePoints maxChunkDuration 0 []"

subsection \<open>The planning algorithm as the specification words it\<close>

text \<open>
  The specification's forward scan (step 3): from the opening candidate on, the first point
  \<open>q\<close> with \<open>0.5 * target \<le> q - cursor \<le> target\<close>, together with its distance from the
  opening candidate; the scan stops without a result at the first point that overshoots the
  target.
\<close>

fun forwardScan_spec :: "seconds list \<Rightarrow> seconds \<Rightarrow> seconds \<Rightarrow> (seconds \<times> nat) option" where
  "forwardScan_spec [] cursor target = None"
| "forwardScan_spec (q # later) cursor target =
     (if 0.5 * target \<le> q - cursor \<and> q - cursor \<le> target then Some (q, 0)
      else if q - cursor > target then None
      else map_option (\<lambda>(q', k). (q', Suc k)) (forwardScan_spec later cursor target))"

text \<open>
  The specification's outer walk (steps 2, 4, 5 and 6). After a cut chosen by the forward
  scan at distance \<open>k\<close> from the candidate, the walk resumes at the position after the chosen
  point; after a fallback to the candidate, at the position after the candidate.
\<close>

function plan_walk_spec :: "seconds list \<Rightarrow> seconds \<Rightarrow> seconds \<Rightarrow> seconds list" where
  "plan_walk_spec [] target cursor = []"
| "plan_walk_spec (p # later) target cursor =
     (if p - cursor \<ge> 0.8 * target
      then (case forwardScan_spec (p # later) cursor target of
              Some (q, k) \<Rightarrow> q # plan_walk_spec (drop k later) target q
            | None \<Rightarrow> p # plan_walk_spec later target p)
      else plan_walk_spec later target cursor)"
  by pat_completeness auto
termination
  by (relation "measure (\<lambda>(ps, t, c). length ps)") auto

definition plan_spec :: "seconds list \<Rightarrow> seconds \<Rightarrow> seconds \<Rightarrow> seconds list" where
  "plan_spec silencePoints duration targetChunkSeconds =
     plan_walk_spec silencePoints targetChunkSeconds 0"

section \<open>Strings and timestamps\<close>

text \<open>Decimal digits of a natural number, as \<^verbatim>\<open>toString\<close> prints an integer.\<close>

fun digits :: "nat \<Rightarrow> string" where
  "digits n = (if n < 10 then [''0123456789'' ! n]
               else digits (n div 10) @ [''0123456789'' ! (n mod 10)])"

declare digits.simps [simp del]

definition toString :: "int \<Rightarrow> string" where
  "toString n = (if n < 0 then ''-'' @ digits (nat (- n)) else digits (nat n))"

definition padStart :: "nat \<Rightarrow> char \<Rightarrow> string \<Rightarrow> string" where
  "padStart targetLength c s = replicate (targetLength - length s) c @ s"

definition startsWith :: "string \<Rightarrow> string \<Rightarrow> bool" where
  "startsWith s pre = (take (length pre) s = pre)"

definition endsWith :: "string \<Rightarrow> string \<Rightarrow> bool" where
  "endsWith s suf = (length suf \<le> length s \<and> drop (length s - length suf) s = suf)"

text \<open>
  \<^verbatim>\<open>path.join\<close> of a directory and a file name; the normalisation that \<^verbatim>\<open>path.join\<close> applies
  to the directory name is not modelled.
\<close>

definition path_join :: "string \<Rightarrow> string \<Rightarrow> string" where
  "path_join dir file = dir @ ''/'' @ file"

text \<open>
  The remainder operator \<^verbatim>\<open>%\<close> of JavaScript: the quotient is truncated towards zero, so
  the result has the sign of the dividend.
\<close>

definition js_rem :: "real \<Rightarrow> real \<Rightarrow> real" where
  "js_rem x m = (let q = x / m in x - m * of_int (if 0 \<le> q then \<lfloor>q\<rfloor> else \<lceil>q\<rceil>))"

definition formatTimestamp :: "seconds \<Rightarrow> string" where
  "formatTimestamp seconds =
     (let hours = \<lfloor>seconds / 3600\<rfloor>;
          minutes = \<lfloor>js_rem seconds 3600 / 60\<rfloor>;
          secs = \<lfloor>js_rem seconds 60\<rfloor>
      in if hours > 0
         then padStart 2 CHR ''0'' (toString hours) @ '':''
              @ padStart 2 CHR ''0'' (toString minutes) @ '':''
              @ padStart 2 CHR ''0'' (toString secs)
         else padStart 2 CHR ''0'' (toString minutes) @ '':''
              @ padStart 2 CHR ''0'' (toString secs))"

section \<open>Promises and the events of an ffmpeg command\<close>

text \<open>
  A promise is pending until the first call of \<^verbatim>\<open>resolve\<close> or \<^verbatim>\<open>reject\<close>; later calls
  change nothing. A promise that is still pending when no event is left never settles: the
  caller that awaits it never continues.
\<close>

datatype 'a promise = Pending | Resolved 'a | Rejected string

fun resolve :: "'a \<Rightarrow> 'a promise \<Rightarrow> 'a promise" where
  "resolve v Pending = Resolved v"
| "resolve v p = p"

fun reject :: "string \<Rightarrow> 'a promise \<Rightarrow> 'a promise" where
  "reject e Pending = Rejected e"
| "reject e p = p"

text \<open>
  Each ffmpeg command that \<^verbatim>\<open>splitAtSpecificPoints\<close> launches runs as a process of its own
  and emits one terminal event: \<^verbatim>\<open>end\<close>, or \<^verbatim>\<open>error\<close> with a message. The commands run side
  by side; the order in which their events arrive is an input of the model, a list of events
  that carry the index of their segment.
\<close>

datatype ffmpeg_event = End nat | Error nat string

fun event_index :: "ffmpeg_event \<Rightarrow> nat" where
  "event_index (End index) = index"
| "event_index (Error index msg) = index"

fun is_End :: "ffmpeg_event \<Rightarrow> bool" where
  "is_End (End index) = True"
| "is_End (Error index msg) = False"

text \<open>One terminal event for each of the \<open>n\<close> commands, in any order.\<close>

definition wellformed_trace :: "nat \<Rightarrow> ffmpeg_event list \<Rightarrow> bool" where
  "wellformed_trace n events =
     (length events = n \<and> distinct (map event_index events)
      \<and> list_all (\<lambda>e. event_index e < n) events)"

section \<open>Segment extraction: \<^verbatim>\<open>splitAtSpecificPoints\<close>\<close>

record segment =
  seg_start :: seconds
  seg_end :: "seconds option"

record chunk =
  path :: string
  startTime :: seconds
  endTime :: "seconds option"

text \<open>
  The segments array: one closed segment for each split point, then, if there is a split
  point at all, the open segment after the last one (\<open>None\<close> is \<^verbatim>\<open>null\<close>).
\<close>

definition buildSegments :: "seconds list \<Rightarrow> segment list" where
  "buildSegments splitPoints =
     map (\<lambda>i. \<lparr>seg_start = (if i = 0 then 0 else splitPoints ! (i - 1)),
               seg_end = Some (splitPoints ! i)\<rparr>) [0..<length splitPoints]
     @ (if length splitPoints > 0
        then [\<lparr>seg_start = splitPoints ! (length splitPoints - 1), seg_end = None\<rparr>]
        else [])"

definition chunkPath :: "string \<Rightarrow> string \<Rightarrow> nat \<Rightarrow> string" where
  "chunkPath outputDir baseName index =
     path_join outputDir
       (baseName @ ''_chunk_'' @ padStart 3 CHR ''0'' (toString (int index)) @ ''.mp3'')"

text \<open>
  The state that the event handlers of \<^verbatim>\<open>splitAtSpecificPoints\<close> share: the array
  \<^verbatim>\<open>chunks\<close>, the counter \<^verbatim>\<open>processedCount\<close> and the promise the function returned.
\<close>

record extraction =
  chunks :: "chunk list"
  processedCount :: nat
  settled :: "chunk list promise"

text \<open>
  The handlers. On \<^verbatim>\<open>end\<close> the chunk of the segment is pushed, and the promise resolves with
  the array once the counter reaches the number of segments; on \<^verbatim>\<open>error\<close> the promise is
  rejected with the index of the segment in the message. An event of a command that was
  never launched cannot arrive; the model leaves the state as it is there.
\<close>

fun onEvent :: "string \<Rightarrow> string \<Rightarrow> segment list \<Rightarrow> extraction \<Rightarrow> ffmpeg_event \<Rightarrow> extraction" where
  "onEvent outputDir baseName segments st (End index) =
     (if index < length segments
      then (let chunks' = chunks st @
                    [\<lparr>path = chunkPath outputDir baseName index,
                      startTime = seg_start (segments ! index),
                      endTime = seg_end (segments ! index)\<rparr>];
                processedCount' = processedCount st + 1
            in \<lparr>chunks = chunks', processedCount = processedCount',
                settled = (if processedCount' = length segments
                           then resolve chunks' (settled st) else settled st)\<rparr>)
      else st)"
| "onEvent outputDir baseName segments st (Error index msg) =
     (if index < length segments
      then st\<lparr>settled :=
                reject (''Error creating chunk '' @ toString (int index) @ '': '' @ msg)
                  (settled st)\<rparr>
      else st)"

definition splitAtSpecificPoints ::
    "string \<Rightarrow> string \<Rightarrow> seconds list \<Rightarrow> ffmpeg_event list \<Rightarrow> chunk list promise" where
  "splitAtSpecificPoints outputDir baseName splitPoints events =
     settled (foldl (onEvent outputDir baseName (buildSegments splitPoints))
                \<lparr>chunks = [], processedCount = 0, settled = Pending\<rparr> events)"

section \<open>Time-based splitting: \<^verbatim>\<open>splitByTime\<close>\<close>

text \<open>
  The segment muxer runs as one ffmpeg command. It ends with \<^verbatim>\<open>error\<close>, or with \<^verbatim>\<open>end\<close>,
  and then the handler reads the names in the output directory.
\<close>

datatype segmenter_outcome = SegmenterEnd "string list" | SegmenterError string

text \<open>
  The loop \<^verbatim>\<open>files.forEach((file, index) => ...)\<close>, from index \<open>index\<close> on. The product
  and the sum are those of the script where the chunk length is a whole number of seconds;
  for a chunk length such as 0.1 the script rounds both and the model does not, and nothing
  below is stated for such a length.
\<close>

fun timeChunks :: "string \<Rightarrow> seconds \<Rightarrow> nat \<Rightarrow> string list \<Rightarrow> chunk list" where
  "timeChunks outputDir chunkDuration index [] = []"
| "timeChunks outputDir chunkDuration index (file # files) =
     (let startTime = real index * chunkDuration
      in \<lparr>path = path_join outputDir file, startTime = startTime,
          endTime = Some (startTime + chunkDuration)\<rparr>
         # timeChunks outputDir chunkDuration (index + 1) files)"

definition splitByTime ::
    "string \<Rightarrow> string \<Rightarrow> seconds \<Rightarrow> segmenter_outcome \<Rightarrow> chunk list promise" where
  "splitByTime outputDir baseName chunkDuration outcome =
     (case outcome of
        SegmenterError msg \<Rightarrow> Rejected msg
      | SegmenterEnd names \<Rightarrow>
          (let files = sort (filter (\<lambda>file. startsWith file (baseName @ ''_chunk_'')
                                            \<and> endsWith file ''.mp3'') names)
           in Resolved (timeChunks outputDir chunkDuration 0 files)))"

section \<open>The world outside the script\<close>

text \<open>
  A line of ffmpeg's stderr, as the two regular expressions of \<^verbatim>\<open>splitAtSilence\<close> see it:
  the hours, minutes and seconds of a \<^verbatim>\<open>Duration:\<close> match, and the number of a
  \<^verbatim>\<open>silence_start:\<close> match.
\<close>

record stderr_line =
  durationMatch :: "(nat \<times> nat \<times> seconds) option"
  silenceMatch :: "seconds option"

text \<open>
  Everything the run reads from outside: whether the input file exists, what ffprobe
  answers, the outcome of the silence passes, of the extraction commands and of the segment
  muxer, what the remote transcription answers for a file (\<open>Inl\<close> is the message of the
  error it throws), and whether the \<open>i\<close>-th write to the output file succeeds.
\<close>

record world =
  fileExists :: bool
  probedDuration :: "string + seconds"
  analysisError :: "string option"
  testMode :: bool
  firstScanError :: "string option"
  scanLines :: "stderr_line list"
  scanError :: "string option"
  extractionEvents :: "ffmpeg_event list"
  segmenter :: segmenter_outcome
  transcribeAudioFile :: "string \<Rightarrow> string + string"
  writeSucceeds :: "nat \<Rightarrow> bool"

record audio_path =
  dir_name :: string
  base_name :: string
  ext_name :: string

definition absPath :: "audio_path \<Rightarrow> string" where
  "absPath f = path_join (dir_name f) (base_name f @ ext_name f)"

section \<open>Silence scan and the choice of the splitter: \<^verbatim>\<open>splitAtSilence\<close>\<close>

text \<open>The stderr handler: the state is the array \<^verbatim>\<open>silencePoints\<close> and \<^verbatim>\<open>audioDuration\<close>.\<close>

fun onStderr :: "seconds list \<times> seconds \<Rightarrow> stderr_line \<Rightarrow> seconds list \<times> seconds" where
  "onStderr (silencePoints, audioDuration) line =
     (let audioDuration' =
            (case durationMatch line of
               Some (hours, minutes, secs) \<Rightarrow> real hours * 3600 + real minutes * 60 + secs
             | None \<Rightarrow> audioDuration);
          silencePoints' =
            (case silenceMatch line of
               Some silencePoint \<Rightarrow> silencePoints @ [silencePoint]
             | None \<Rightarrow> silencePoints)
      in (silencePoints', audioDuration'))"

definition scanned :: "world \<Rightarrow> seconds list \<times> seconds" where
  "scanned w = foldl onStderr ([], 0) (scanLines w)"

definition splitAtSilence :: "world \<Rightarrow> string \<Rightarrow> string \<Rightarrow> seconds \<Rightarrow> chunk list promise" where
  "splitAtSilence w outputDir baseName maxChunkDuration =
     (case scanError w of
        Some err \<Rightarrow> Rejected err
      | None \<Rightarrow>
          (let (silencePoints, audioDuration) = scanned w;
               splitPoints = calculateOptimalSplitPoints silencePoints audioDuration maxChunkDuration
           in if length splitPoints = 0
              then splitByTime outputDir baseName maxChunkDuration (segmenter w)
              else splitAtSpecificPoints outputDir baseName splitPoints (extractionEvents w)))"

text \<open>
  \<^verbatim>\<open>splitAudioIntoChunks\<close> runs a silence pass of its own, whose matches it does not use, and
  hands over to \<^verbatim>\<open>splitAtSilence\<close> when that pass ends.
\<close>

definition splitAudioIntoChunks :: "world \<Rightarrow> audio_path \<Rightarrow> seconds \<Rightarrow> chunk list promise" where
  "splitAudioIntoChunks w inputPath chunkDuration =
     (case firstScanError w of
        Some err \<Rightarrow> Rejected err
      | None \<Rightarrow> splitAtSilence w (path_join (dir_name inputPath) ''chunks'') (base_name inputPath)
                  chunkDuration)"

section \<open>Transcription and output: \<^verbatim>\<open>transcribeAudio\<close>\<close>

text \<open>
  The output file is modelled by the list of the strings written to it. A write that fails
  is caught inside the two functions below and leaves the file as it was.
\<close>

definition appendTranscriptionToFile :: "bool \<Rightarrow> string \<Rightarrow> string list \<Rightarrow> string list" where
  "appendTranscriptionToFile ok transcription file =
     (if ok then file @ [transcription @ ''\<newline>\<newline>''] else file)"

definition saveTranscriptionToFile :: "bool \<Rightarrow> string \<Rightarrow> string list \<Rightarrow> string list" where
  "saveTranscriptionToFile ok transcription file = (if ok then [transcription] else file)"

text \<open>
  The header \<^verbatim>\<open>[start - end]\<close> and the line break after it. \<^verbatim>\<open>chunk.endTime ? ... : 'end'\<close>
  prints \<^verbatim>\<open>end\<close> for \<^verbatim>\<open>null\<close> and for 0.
\<close>

definition chunkHeader :: "chunk \<Rightarrow> string" where
  "chunkHeader c =
     (let startTime = formatTimestamp (startTime c);
          endTime = (case endTime c of
                       None \<Rightarrow> ''end''
                     | Some e \<Rightarrow> if e = 0 then ''end'' else formatTimestamp e)
      in ''['' @ startTime @ '' - '' @ endTime @ '']\<newline>'')"

text \<open>
  The loop \<^verbatim>\<open>for (let i = 0; i < chunks.length; i++)\<close> of \<^verbatim>\<open>transcribeAudio\<close>, from index
  \<open>i\<close> on: the transcription of a chunk is awaited, and its text or the error marker is
  written, before the next round starts.
\<close>

fun transcribeLoop :: "world \<Rightarrow> nat \<Rightarrow> chunk list \<Rightarrow> string list \<Rightarrow> string list" where
  "transcribeLoop w i [] file = file"
| "transcribeLoop w i (c # rest) file =
     (case transcribeAudioFile w (path c) of
        Inr transcription \<Rightarrow>
          transcribeLoop w (i + 1) rest
            (appendTranscriptionToFile (writeSucceeds w i) (chunkHeader c @ transcription) file)
      | Inl message \<Rightarrow>
          transcribeLoop w (i + 1) rest
            (appendTranscriptionToFile (writeSucceeds w i)
               (chunkHeader c @ ''[ERROR: '' @ message @ '']'') file))"

text \<open>
  How a run ends: the process exits with a code, the outer \<^verbatim>\<open>catch\<close> prints an error, the
  run completes and leaves an output file, or it waits for ever on a promise that never
  settles.
\<close>

datatype run_outcome = Exited nat | Failed string | Completed "string list" | Hangs

definition transcribeAudio :: "world \<Rightarrow> audio_path \<Rightarrow> run_outcome" where
  "transcribeAudio w filePath =
     (if \<not> fileExists w then Exited 1
      else case probedDuration w of
        Inl err \<Rightarrow> Failed err
      | Inr duration \<Rightarrow>
          (case analysisError w of
             Some err \<Rightarrow> Failed err
           | None \<Rightarrow>
               if testMode w then Exited 0
               else if duration > 60
               then (case splitAudioIntoChunks w filePath 30 of
                       Pending \<Rightarrow> Hangs
                     | Rejected err \<Rightarrow> Failed err
                     | Resolved created \<Rightarrow> Completed (transcribeLoop w 0 created []))
               else (case transcribeAudioFile w (absPath filePath) of
                       Inl err \<Rightarrow> Failed err
                     | Inr transcription \<Rightarrow>
                         Completed (saveTranscriptionToFile (writeSucceeds w 0) transcription []))))"

section \<open>Range of split points\<close>

text \<open>Every point lies strictly between 0 and the duration.\<close>

definition insideStream :: "seconds \<Rightarrow> seconds list \<Rightarrow> bool" where
  "insideStream duration points = list_all (\<lambda>p. 0 < p \<and> p < duration) points"

section \<open>An example run\<close>

text \<open>
  A recording of 2 minutes and 20 seconds with silences that start at 65 and at 130 seconds.
  Everything outside the script works: the three extraction commands end in the order of
  their segments, the transcription service answers for every file (in the example, with
  the name of the file it was sent), and every write succeeds.
\<close>

definition example_input :: audio_path where
  "example_input = \<lparr>dir_name = ''in'', base_name = ''a'', ext_name = ''.wav''\<rparr>"

definition example_world :: world where
  "example_world =
     \<lparr>fileExists = True, probedDuration = Inr 140, analysisError = None, testMode = False,
      firstScanError = None,
      scanLines = [\<lparr>durationMatch = Some (0, 2, 20), silenceMatch = None\<rparr>,
                   \<lparr>durationMatch = None, silenceMatch = Some 65\<rparr>,
                   \<lparr>durationMatch = None, silenceMatch = Some 130\<rparr>],
      scanError = None,
      extractionEvents = [End 0, End 1, End 2],
      segmenter = SegmenterEnd [],
      transcribeAudioFile = Inr,
      writeSucceeds = (\<lambda>i. True)\<rparr>"

section \<open>The planner on the specification's example\<close>

text \<open>
  C3. On the silence points 10, 40, 65, 95, 130 of a stream of 140 seconds, with a target of
  60 seconds, the planner returns exactly the two split points 65 and 130.
\<close>

theorem planner_example:
  "calculateOptimalSplitPoints [10, 40, 65, 95, 130] 140 60 = [65, 130]"
  by (simp add: calculateOptimalSplitPoints_def)

text \<open>
  C10. The planner never reads its total-duration argument: two calls that differ only in
  that argument return the same split points.
\<close>

theorem planner_ignores_totalDuration:
  "calculateOptimalSplitPoints silencePoints d1 maxChunkDuration =
   calculateOptimalSplitPoints silencePoints d2 maxChunkDuration"
  by (simp add: calculateOptimalSplitPoints_def)

section \<open>The planner with a positive target\<close>

text \<open>
  With a positive target the forward scan never moves past the candidate that opened it: the
  candidate is at least 0.8 of the target away from the cursor, so it is either inside the
  accepted range or already beyond the target.
\<close>

lemma findBestPoint_open:
  "0 < t \<Longrightarrow> p - cur \<ge> t * 0.8 \<Longrightarrow> findBestPoint (p # later) cur t p = p"
  by (auto simp: Let_def)

lemma forwardScan_open:
  "0 < t \<Longrightarrow> p - cur \<ge> 0.8 * t \<Longrightarrow>
   forwardScan_spec (p # later) cur t = (if p - cur \<le> t then Some (p, 0) else None)"
  by auto

lemma splitLoop_step_open:
  "0 < t \<Longrightarrow> p - cur \<ge> t * 0.8 \<Longrightarrow> splitLoop (p # ps) t cur acc = splitLoop ps t p (acc @ [p])"
  using findBestPoint_open[of t p cur ps] by (simp only: splitLoop.simps Let_def if_True)

lemma splitLoop_step_closed:
  "\<not> p - cur \<ge> t * 0.8 \<Longrightarrow> splitLoop (p # ps) t cur acc = splitLoop ps t cur acc"
  by simp

lemma splitLoop_increasing:
  "0 < t \<Longrightarrow> sorted_wrt (<) acc \<Longrightarrow> \<forall>a\<in>set acc. a \<le> cur \<Longrightarrow>
   sorted_wrt (<) (splitLoop ps t cur acc)"
proof (induction ps arbitrary: cur acc)
  case Nil
  then show ?case by simp
next
  case (Cons p ps)
  show ?case
  proof (cases "p - cur \<ge> t * 0.8")
    case True
    with Cons.prems have gt: "cur < p" by simp
    have s: "sorted_wrt (<) (acc @ [p])"
      using Cons.prems gt by (auto simp: sorted_wrt_append)
    have b: "\<forall>a\<in>set (acc @ [p]). a \<le> p"
      using Cons.prems gt by auto
    show ?thesis
      using Cons.IH[OF Cons.prems(1) s b] splitLoop_step_open[OF Cons.prems(1) True] by simp
  next
    case False
    show ?thesis
      using Cons.IH[OF Cons.prems] splitLoop_step_closed[OF False] by simp
  qed
qed

lemma splitLoop_positive:
  "0 < t \<Longrightarrow> 0 \<le> cur \<Longrightarrow> \<forall>a\<in>set acc. 0 < a \<Longrightarrow> \<forall>a\<in>set (splitLoop ps t cur acc). 0 < a"
proof (induction ps arbitrary: cur acc)
  case Nil
  then show ?case by simp
next
  case (Cons p ps)
  show ?case
  proof (cases "p - cur \<ge> t * 0.8")
    case True
    with Cons.prems have gt: "0 < p" by simp
    have b: "\<forall>a\<in>set (acc @ [p]). 0 < a" using Cons.prems gt by auto
    have "0 \<le> p" using gt by simp
    from Cons.IH[OF Cons.prems(1) this b] show ?thesis
      using splitLoop_step_open[OF Cons.prems(1) True] by simp
  next
    case False
    show ?thesis
      using Cons.IH[OF Cons.prems] splitLoop_step_closed[OF False] by simp
  qed
qed

lemma splitLoop_subset:
  "0 < t \<Longrightarrow> set (splitLoop ps t cur acc) \<subseteq> set acc \<union> set ps"
proof (induction ps arbitrary: cur acc)
  case Nil
  then show ?case by simp
next
  case (Cons p ps)
  show ?case
  proof (cases "p - cur \<ge> t * 0.8")
    case True
    show ?thesis
      using Cons.IH[OF Cons.prems, of p "acc @ [p]"] splitLoop_step_open[OF Cons.prems True]
      by auto
  next
    case False
    show ?thesis
      using Cons.IH[OF Cons.prems, of cur acc] splitLoop_step_closed[OF False] by auto
  qed
qed

section \<open>Range and order of the split points\<close>

text \<open>
  C2, as stated, fails. The planner does not look at the duration, so a silence point at or
  beyond it is returned as a split point: for a duration of 100 the point 130 is returned.
  With a target of 0 two equal silence points are both returned, and the result is not
  strictly increasing.
\<close>

theorem planner_range_counterexample:
  "\<not> insideStream 100 (calculateOptimalSplitPoints [10, 40, 65, 95, 130] 100 60)
   \<and> \<not> sorted_wrt (<) (calculateOptimalSplitPoints [5, 5] 10 0)"
  by (simp add: calculateOptimalSplitPoints_def insideStream_def)

text \<open>
  C2, amended. For every sequence of silence points that all lie below the duration, and
  every target greater than 0, each split point the planner returns lies strictly between 0
  and the duration, and the returned sequence is strictly increasing.
\<close>

theorem planner_range_amended:
  assumes "0 < maxChunkDuration" and "list_all (\<lambda>p. p < totalDuration) silencePoints"
  shows "insideStream totalDuration
           (calculateOptimalSplitPoints silencePoints totalDuration maxChunkDuration)
         \<and> sorted_wrt (<) (calculateOptimalSplitPoints silencePoints totalDuration maxChunkDuration)"
proof -
  let ?r = "splitLoop silencePoints maxChunkDuration 0 []"
  have pos: "\<forall>a\<in>set ?r. 0 < a"
    using splitLoop_positive[OF assms(1), of 0 "[]" silencePoints] by simp
  have sub: "set ?r \<subseteq> set silencePoints"
    using splitLoop_subset[OF assms(1), of silencePoints 0 "[]"] by simp
  have inc: "sorted_wrt (<) ?r"
    using splitLoop_increasing[OF assms(1), of "[]" 0 silencePoints] by simp
  have "\<forall>a\<in>set ?r. a < totalDuration"
    using sub assms(2) by (auto simp: list_all_iff)
  with pos inc show ?thesis
    by (simp add: calculateOptimalSplitPoints_def insideStream_def list_all_iff)
qed

theorem planner_range_amended_witness:
  "0 < (60::real) \<and> list_all (\<lambda>p. p < 140) [10, 40, 65, 95, 130 :: real]
   \<and> insideStream 140 (calculateOptimalSplitPoints [10, 40, 65, 95, 130] 140 60)
   \<and> sorted_wrt (<) (calculateOptimalSplitPoints [10, 40, 65, 95, 130] 140 60)"
  using planner_range_amended[of 60 140 "[10, 40, 65, 95, 130]"] by simp

section \<open>The planner against the specification's algorithm\<close>

lemma splitLoop_plan_walk:
  "0 < t \<Longrightarrow> splitLoop ps t cur acc = acc @ plan_walk_spec ps t cur"
proof (induction ps arbitrary: cur acc)
  case Nil
  then show ?case by simp
next
  case (Cons p ps)
  show ?case
  proof (cases "p - cur \<ge> t * 0.8")
    case True
    then have o: "p - cur \<ge> 0.8 * t" by (simp add: mult.commute)
    show ?thesis
      using True Cons.prems Cons.IH[of p "acc @ [p]"]
      by (simp only: splitLoop.simps plan_walk_spec.simps findBestPoint_open[OF Cons.prems True]
            forwardScan_open[OF Cons.prems o] Let_def o) auto
  next
    case False
    then have o: "\<not> p - cur \<ge> 0.8 * t" by (simp add: mult.commute)
    show ?thesis
      using False Cons.prems Cons.IH[of cur acc] o
      by (simp only: splitLoop.simps plan_walk_spec.simps) auto
  qed
qed

text \<open>
  C9. For every non-decreasing sequence of silence points and every target greater than 0,
  the planner of the script returns the sequence that the specification's algorithm returns,
  the one whose outer walk resumes at the position after the chosen point.
\<close>

theorem planner_refines_spec:
  "sorted silencePoints \<Longrightarrow> 0 < targetChunkSeconds \<Longrightarrow>
   calculateOptimalSplitPoints silencePoints duration targetChunkSeconds =
   plan_spec silencePoints duration targetChunkSeconds"
  by (simp add: calculateOptimalSplitPoints_def plan_spec_def splitLoop_plan_walk)

theorem planner_refines_spec_witness:
  "sorted [10, 40, 65, 95, 130 :: real] \<and> 0 < (60::real) \<and>
   calculateOptimalSplitPoints [10, 40, 65, 95, 130] 140 60 = plan_spec [10, 40, 65, 95, 130] 140 60
   \<and> plan_spec [10, 40, 65, 95, 130] 140 60 = [65, 130]"
  using planner_refines_spec[of "[10, 40, 65, 95, 130]" 60 140]
  by (simp add: plan_spec_def)

section \<open>Evaluating the example\<close>

lemmas eval_defs = example_world_def example_input_def transcribeAudio_def splitAudioIntoChunks_def
  splitAtSilence_def scanned_def calculateOptimalSplitPoints_def splitAtSpecificPoints_def
  buildSegments_def chunkPath_def path_join_def padStart_def toString_def digits.simps
  chunkHeader_def formatTimestamp_def js_rem_def appendTranscriptionToFile_def Let_def
  splitByTime_def startsWith_def endsWith_def upt_rec numeral_2_eq_2 numeral_3_eq_3

lemma example_run:
  "transcribeAudio example_world example_input =
     Completed [''[00:00 - 01:05]\<newline>in/chunks/a_chunk_000.mp3\<newline>\<newline>'',
                ''[01:05 - 02:10]\<newline>in/chunks/a_chunk_001.mp3\<newline>\<newline>'',
                ''[02:10 - end]\<newline>in/chunks/a_chunk_002.mp3\<newline>\<newline>'']"
  by (simp add: eval_defs)

lemma splitByTime_example:
  "splitByTime ''in/chunks'' ''a'' 30
     (SegmenterEnd [''a_chunk_001.mp3'', ''notes.txt'', ''a_chunk_000.mp3'']) =
   Resolved [\<lparr>path = ''in/chunks/a_chunk_000.mp3'', startTime = 0, endTime = Some 30\<rparr>,
             \<lparr>path = ''in/chunks/a_chunk_001.mp3'', startTime = 30, endTime = Some 60\<rparr>]"
  by (simp add: eval_defs)

section \<open>The planner with a target that is not positive\<close>

lemma findBestPoint_nonpositive:
  "t \<le> 0 \<Longrightarrow> cur \<le> p \<Longrightarrow> findBestPoint (p # later) cur t p = p"
  by (auto simp: Let_def)

lemma splitLoop_nonpositive:
  "t \<le> 0 \<Longrightarrow> sorted ps \<Longrightarrow> \<forall>p\<in>set ps. cur \<le> p \<Longrightarrow> splitLoop ps t cur acc = acc @ ps"
proof (induction ps arbitrary: cur acc)
  case Nil
  then show ?case by simp
next
  case (Cons p ps)
  have c: "cur \<le> p" using Cons.prems by simp
  have o: "p - cur \<ge> t * 0.8" using c Cons.prems(1) by (simp add: mult_nonpos_nonneg) 
  have s: "sorted ps" and b: "\<forall>q\<in>set ps. p \<le> q" using Cons.prems by auto
  show ?case
    using Cons.IH[OF Cons.prems(1) s b, of "acc @ [p]"] findBestPoint_nonpositive[OF Cons.prems(1) c, of ps] o
    by (simp only: splitLoop.simps Let_def if_True) simp
qed

text \<open>
  C8, as stated, fails. No function of the script checks its chunk length. With a target
  of 0 and one silence at 10 seconds the scan runs, the planner returns the split point 10,
  both segments are extracted and the chunks are handed on.
\<close>

theorem nonpositive_target_counterexample:
  "splitAtSilence (example_world\<lparr>scanLines := [\<lparr>durationMatch = None, silenceMatch = Some 10\<rparr>],
                                  extractionEvents := [End 0, End 1]\<rparr>) ''in/chunks'' ''a'' 0 =
     Resolved [\<lparr>path = ''in/chunks/a_chunk_000.mp3'', startTime = 0, endTime = Some 10\<rparr>,
               \<lparr>path = ''in/chunks/a_chunk_001.mp3'', startTime = 10, endTime = None\<rparr>]"
  by (simp add: eval_defs)

text \<open>
  C8, amended. A target that is 0 or negative is not rejected and nothing fails fast. After
  a scan that ends without error and yields non-negative, non-decreasing silence points,
  every silence point becomes a split point: the segments between them are extracted, and
  when there is no silence point the time-based splitter runs with that target.
\<close>

theorem nonpositive_target_amended:
  assumes "maxChunkDuration \<le> 0" and "scanError w = None"
    and "sorted (fst (scanned w))" and "list_all (\<lambda>p. 0 \<le> p) (fst (scanned w))"
  shows "splitAtSilence w outputDir baseName maxChunkDuration =
           (if fst (scanned w) = []
            then splitByTime outputDir baseName maxChunkDuration (segmenter w)
            else splitAtSpecificPoints outputDir baseName (fst (scanned w)) (extractionEvents w))"
proof -
  obtain sp d where sc: "scanned w = (sp, d)" by (cases "scanned w")
  have "\<forall>p\<in>set sp. 0 \<le> p" using assms(4) sc by (simp add: list_all_iff)
  moreover have "sorted sp" using assms(3) sc by simp
  ultimately have "calculateOptimalSplitPoints sp d maxChunkDuration = sp"
    using splitLoop_nonpositive[OF assms(1), of sp 0 "[]"]
    by (simp add: calculateOptimalSplitPoints_def)
  then show ?thesis
    using assms(2) sc by (simp add: splitAtSilence_def)
qed

theorem nonpositive_target_amended_witness:
  "(-5::real) \<le> 0 \<and> scanError example_world = None \<and> sorted (fst (scanned example_world))
   \<and> list_all (\<lambda>p. 0 \<le> p) (fst (scanned example_world))
   \<and> splitAtSilence example_world ''in/chunks'' ''a'' (-5) =
       splitAtSpecificPoints ''in/chunks'' ''a'' [65, 130] [End 0, End 1, End 2]"
  using nonpositive_target_amended[of "-5" example_world "''in/chunks''" "''a''"]
  by (simp add: example_world_def scanned_def)

section \<open>Order of the chunks\<close>

text \<open>
  C1. The chunks handed to transcription are in the order of their segments (chunk \<open>i\<close>
  covers segment \<open>i\<close>), and the entry of chunk \<open>i\<close> is written before chunk \<open>i + 1\<close> is
  transcribed, so the output holds no entry out of order. The script breaks the first half:
  \<^verbatim>\<open>splitAtSpecificPoints\<close> pushes a chunk when its ffmpeg command ends, so the array is in
  the order of completion. On the split points 65 and 130, when the command of segment 1
  ends before the command of segment 0, the chunk of segment 1 comes first and the
  transcript starts with the entry for 01:05 to 02:10.
\<close>

theorem chunks_in_completion_order:
  "splitAtSpecificPoints ''in/chunks'' ''a'' [65, 130] [End 1, End 0, End 2] =
     Resolved [\<lparr>path = ''in/chunks/a_chunk_001.mp3'', startTime = 65, endTime = Some 130\<rparr>,
               \<lparr>path = ''in/chunks/a_chunk_000.mp3'', startTime = 0, endTime = Some 65\<rparr>,
               \<lparr>path = ''in/chunks/a_chunk_002.mp3'', startTime = 130, endTime = None\<rparr>]
   \<and> transcribeAudio (example_world\<lparr>extractionEvents := [End 1, End 0, End 2]\<rparr>) example_input =
     Completed [''[01:05 - 02:10]\<newline>in/chunks/a_chunk_001.mp3\<newline>\<newline>'',
                ''[00:00 - 01:05]\<newline>in/chunks/a_chunk_000.mp3\<newline>\<newline>'',
                ''[02:10 - end]\<newline>in/chunks/a_chunk_002.mp3\<newline>\<newline>'']"
  by (simp add: eval_defs)

section \<open>A failing extraction\<close>

text \<open>
  C5, as stated, fails. When the command of segment 1 fails, the promise of
  \<^verbatim>\<open>splitAtSpecificPoints\<close> is rejected: the caller receives no chunk at all, also not those
  of segments 0 and 2, and the run ends in its outer \<^verbatim>\<open>catch\<close> without a transcript.
\<close>

theorem extraction_failure_counterexample:
  "splitAtSpecificPoints ''in/chunks'' ''a'' [65, 130] [End 0, Error 1 ''boom'', End 2] =
     Rejected ''Error creating chunk 1: boom''
   \<and> transcribeAudio (example_world\<lparr>extractionEvents := [End 0, Error 1 ''boom'', End 2]\<rparr>)
        example_input = Failed ''Error creating chunk 1: boom''"
  by (simp add: eval_defs)

lemma ends_keep_pending:
  "settled st = Pending \<Longrightarrow> list_all is_End pre \<Longrightarrow> processedCount st + length pre < length segments \<Longrightarrow>
   settled (foldl (onEvent outputDir baseName segments) st pre) = Pending"
proof (induction pre arbitrary: st)
  case Nil
  then show ?case by simp
next
  case (Cons e pre)
  from Cons.prems(2) obtain index where e: "e = End index" by (cases e) simp_all
  let ?st = "onEvent outputDir baseName segments st e"
  have p: "settled ?st = Pending"
    using Cons.prems e by (simp add: Let_def)
  have c: "processedCount ?st + length pre < length segments"
    using Cons.prems e by (simp add: Let_def)
  have "list_all is_End pre" using Cons.prems(2) by simp
  from Cons.IH[OF p this c] show ?case by simp
qed

lemma rejected_stays:
  "settled st = Rejected err \<Longrightarrow>
   settled (foldl (onEvent outputDir baseName segments) st post) = Rejected err"
proof (induction post arbitrary: st)
  case Nil
  then show ?case by simp
next
  case (Cons e post)
  have "settled (onEvent outputDir baseName segments st e) = Rejected err"
    using Cons.prems by (cases e) (simp_all add: Let_def)
  from Cons.IH[OF this] show ?case by simp
qed

text \<open>
  C5, amended. For every list of split points and every order in which the extraction
  commands finish (one terminal event for each segment), the first failure, of segment
  \<open>i\<close>, rejects the whole extraction with the message \<^verbatim>\<open>Error creating chunk i: \<close> followed
  by the cause; the failure is reported for that segment alone, and no chunk list is
  returned.
\<close>

theorem extraction_failure_rejects:
  assumes "wellformed_trace (length (buildSegments splitPoints)) events"
    and "events = pre @ Error index msg # post" and "list_all is_End pre"
  shows "splitAtSpecificPoints outputDir baseName splitPoints events =
           Rejected (''Error creating chunk '' @ toString (int index) @ '': '' @ msg)"
proof -
  let ?segments = "buildSegments splitPoints"
  let ?init = "\<lparr>chunks = [], processedCount = 0, settled = Pending\<rparr>"
  let ?f = "onEvent outputDir baseName ?segments"
  have len: "length pre < length ?segments"
    using assms(1,2) by (simp add: wellformed_trace_def)
  have idx: "index < length ?segments"
    using assms(1,2) by (simp add: wellformed_trace_def)
  have "settled (foldl ?f ?init pre) = Pending"
    using ends_keep_pending[of ?init pre ?segments outputDir baseName] assms(3) len by simp
  then have "settled (?f (foldl ?f ?init pre) (Error index msg)) =
      Rejected (''Error creating chunk '' @ toString (int index) @ '': '' @ msg)"
    using idx by simp
  from rejected_stays[OF this, where post = post] show ?thesis
    by (simp add: splitAtSpecificPoints_def assms(2))
qed

theorem extraction_failure_rejects_witness:
  "wellformed_trace (length (buildSegments [65, 130])) [End 0, Error 1 ''boom'', End 2]
   \<and> [End 0, Error 1 ''boom'', End 2] = [End 0] @ Error 1 ''boom'' # [End 2]
   \<and> list_all is_End [End 0]
   \<and> splitAtSpecificPoints ''chunks'' ''a'' [65, 130] [End 0, Error 1 ''boom'', End 2] =
       Rejected ''Error creating chunk 1: boom''"
  using extraction_failure_rejects[of "[65, 130]" "[End 0, Error 1 ''boom'', End 2]" "[End 0]" 1
      "''boom''" "[End 2]" "''chunks''" "''a''"]
  by (simp add: wellformed_trace_def buildSegments_def toString_def digits.simps)

section \<open>No split points\<close>

text \<open>
  C7, as stated, fails. For an empty list of split points the extractor builds no segment;
  the single open segment from 0 is not built.
\<close>

theorem empty_split_points_counterexample:
  "buildSegments [] \<noteq> [\<lparr>seg_start = 0, seg_end = None\<rparr>]"
  by (simp add: buildSegments_def)

text \<open>
  C7, amended. When the list of split points given to the extractor is empty, the extractor
  builds no segment at all: its list of segments is empty. In the pipeline the extractor is
  not given an empty list: after a scan that ends without error, \<^verbatim>\<open>splitAtSilence\<close> hands an
  empty plan to the time-based splitter, and only a plan that is not empty to the extractor.
\<close>

theorem empty_split_points_amended:
  assumes "scanError w = None"
  shows "buildSegments [] = []
         \<and> splitAtSilence w outputDir baseName maxChunkDuration =
             (if calculateOptimalSplitPoints (fst (scanned w)) (snd (scanned w))
                   maxChunkDuration = []
              then splitByTime outputDir baseName maxChunkDuration (segmenter w)
              else splitAtSpecificPoints outputDir baseName
                     (calculateOptimalSplitPoints (fst (scanned w)) (snd (scanned w))
                        maxChunkDuration)
                     (extractionEvents w))"
proof -
  obtain sp d where sc: "scanned w = (sp, d)" by (cases "scanned w")
  show ?thesis
    using assms sc by (simp add: splitAtSilence_def buildSegments_def)
qed

theorem empty_split_points_amended_witness:
  "scanError (example_world\<lparr>scanLines := []\<rparr>) = None
   \<and> buildSegments [] = []
   \<and> calculateOptimalSplitPoints (fst (scanned (example_world\<lparr>scanLines := []\<rparr>)))
         (snd (scanned (example_world\<lparr>scanLines := []\<rparr>))) 30 = []
   \<and> splitAtSilence (example_world\<lparr>scanLines := []\<rparr>) ''in/chunks'' ''a'' 30 =
       splitByTime ''in/chunks'' ''a'' 30 (SegmenterEnd [])"
  using empty_split_points_amended[of "example_world\<lparr>scanLines := []\<rparr>" "''in/chunks''" "''a''" 30]
  by (simp add: example_world_def scanned_def calculateOptimalSplitPoints_def)

section \<open>The last chunk of the time-based fallback\<close>

text \<open>
  C4. In every sequence of segments the pipeline produces, from the split points at silences
  or from the time-based fallback, the segments are contiguous and in order, and the final
  segment, and only the final segment, has the end \<^verbatim>\<open>null\<close>. The fallback breaks it:
  \<^verbatim>\<open>splitByTime\<close> gives every chunk the end \<open>start + chunkDuration\<close>, the last one as well. On
  a recording of 140 seconds without a usable silence, cut into five files of 30 seconds,
  the last chunk runs from 120 to 150, beyond the recording, and the transcript closes with
  the header for 02:00 to 02:30 where the other path, on the same cuts, builds a last segment
  from 120 with the end \<^verbatim>\<open>null\<close>.
\<close>

theorem fallback_closes_last_chunk:
  "splitByTime ''in/chunks'' ''a'' 30
     (SegmenterEnd [''a_chunk_000.mp3'', ''a_chunk_001.mp3'', ''a_chunk_002.mp3'',
                    ''a_chunk_003.mp3'', ''a_chunk_004.mp3'']) =
     Resolved [\<lparr>path = ''in/chunks/a_chunk_000.mp3'', startTime = 0, endTime = Some 30\<rparr>,
               \<lparr>path = ''in/chunks/a_chunk_001.mp3'', startTime = 30, endTime = Some 60\<rparr>,
               \<lparr>path = ''in/chunks/a_chunk_002.mp3'', startTime = 60, endTime = Some 90\<rparr>,
               \<lparr>path = ''in/chunks/a_chunk_003.mp3'', startTime = 90, endTime = Some 120\<rparr>,
               \<lparr>path = ''in/chunks/a_chunk_004.mp3'', startTime = 120, endTime = Some 150\<rparr>]
   \<and> transcribeAudio
       (example_world\<lparr>scanLines := [\<lparr>durationMatch = Some (0, 2, 20), silenceMatch = None\<rparr>],
                       segmenter := SegmenterEnd [''a_chunk_000.mp3'', ''a_chunk_001.mp3'',
                                                  ''a_chunk_002.mp3'', ''a_chunk_003.mp3'',
                                                  ''a_chunk_004.mp3'']\<rparr>) example_input =
     Completed [''[00:00 - 00:30]\<newline>in/chunks/a_chunk_000.mp3\<newline>\<newline>'',
                ''[00:30 - 01:00]\<newline>in/chunks/a_chunk_001.mp3\<newline>\<newline>'',
                ''[01:00 - 01:30]\<newline>in/chunks/a_chunk_002.mp3\<newline>\<newline>'',
                ''[01:30 - 02:00]\<newline>in/chunks/a_chunk_003.mp3\<newline>\<newline>'',
                ''[02:00 - 02:30]\<newline>in/chunks/a_chunk_004.mp3\<newline>\<newline>'']
   \<and> last (buildSegments [30, 60, 90, 120]) = \<lparr>seg_start = 120, seg_end = None\<rparr>"
  by (simp add: eval_defs)

section \<open>A failing transcription\<close>

lemma transcribeLoop_entries:
  "\<forall>j<length cs. writeSucceeds w (i + j) \<Longrightarrow>
   transcribeLoop w i cs out =
     out @ map (\<lambda>c. chunkHeader c
                    @ (case transcribeAudioFile w (path c) of
                         Inr transcription \<Rightarrow> transcription
                       | Inl message \<Rightarrow> ''[ERROR: '' @ message @ '']'')
                    @ ''\<newline>\<newline>'') cs"
proof (induction cs arbitrary: i out)
  case Nil
  then show ?case by simp
next
  case (Cons c cs)
  have w0: "writeSucceeds w i" using Cons.prems[rule_format, of 0] by simp
  have rest: "\<forall>j<length cs. writeSucceeds w (i + 1 + j)"
    using Cons.prems[rule_format, of "Suc _"] by simp
  show ?case
    using Cons.IH[OF rest] w0
    by (simp add: appendTranscriptionToFile_def split: sum.splits)
qed

text \<open>
  C6. For every sequence of chunks, when the transcription of a chunk fails, the loop writes
  for that chunk an entry whose text is \<^verbatim>\<open>[ERROR: \<close> the message \<^verbatim>\<open>]\<close> and goes on with the
  next chunk: the output has exactly one entry for each chunk, in the order of the chunks,
  and no failure of a transcription ends the run. (The output is what is written to the
  file, so the statement is about runs in which the write of each round succeeds.)
\<close>

theorem transcription_failure_is_inline:
  assumes "list_all (writeSucceeds w) [0..<length cs]"
  shows "transcribeLoop w 0 cs [] =
     map (\<lambda>c. chunkHeader c
               @ (case transcribeAudioFile w (path c) of
                    Inr transcription \<Rightarrow> transcription
                  | Inl message \<Rightarrow> ''[ERROR: '' @ message @ '']'')
               @ ''\<newline>\<newline>'') cs"
  using transcribeLoop_entries[of cs w 0 "[]"] assms by (simp add: list_all_iff)

theorem transcription_failure_is_inline_witness:
  "list_all
     (writeSucceeds (example_world\<lparr>transcribeAudioFile :=
         (\<lambda>p. if p = ''c1'' then Inl ''Transcription error: timeout'' else Inr ''hello'')\<rparr>))
     [0..<length [\<lparr>path = ''c0'', startTime = 0, endTime = Some 65\<rparr>,
                  \<lparr>path = ''c1'', startTime = 65, endTime = Some 130\<rparr>,
                  \<lparr>path = ''c2'', startTime = 130, endTime = None\<rparr>]]
   \<and> transcribeLoop (example_world\<lparr>transcribeAudioFile :=
         (\<lambda>p. if p = ''c1'' then Inl ''Transcription error: timeout'' else Inr ''hello'')\<rparr>) 0
        [\<lparr>path = ''c0'', startTime = 0, endTime = Some 65\<rparr>,
         \<lparr>path = ''c1'', startTime = 65, endTime = Some 130\<rparr>,
         \<lparr>path = ''c2'', startTime = 130, endTime = None\<rparr>] [] =
       [''[00:00 - 01:05]\<newline>hello\<newline>\<newline>'',
        ''[01:05 - 02:10]\<newline>[ERROR: Transcription error: timeout]\<newline>\<newline>'',
        ''[02:10 - end]\<newline>hello\<newline>\<newline>'']"
  using transcription_failure_is_inline[where
      cs = "[\<lparr>path = ''c0'', startTime = 0, endTime = Some 65\<rparr>,
             \<lparr>path = ''c1'', startTime = 65, endTime = Some 130\<rparr>,
             \<lparr>path = ''c2'', startTime = 130, endTime = None\<rparr>]"
      and w = "example_world\<lparr>transcribeAudioFile :=
         (\<lambda>p. if p = ''c1'' then Inl ''Transcription error: timeout'' else Inr ''hello'')\<rparr>"]
  by (simp add: example_world_def chunkHeader_def formatTimestamp_def js_rem_def toString_def
        padStart_def digits.simps numeral_2_eq_2 list_all_iff)

end
